theory Spec2Isabelle
  imports Complex_Main
begin

section \<open>Sorted-set commands of aioredis: values, errors and outcomes\<close>

text \<open>
  The mixin \<^verbatim>\<open>SortedSetCommandsMixin\<close> of \<^verbatim>\<open>aioredis/commands/sorted_set.py\<close>
  checks its arguments, builds the argument list of one Redis command, hands it to
  \<^verbatim>\<open>self._conn.execute\<close> and, for some commands, attaches a reply converter.
  Python is dynamically typed, so the arguments are values of one universe. The flags
  \<^verbatim>\<open>include_min\<close>, \<^verbatim>\<open>include_max\<close> and \<^verbatim>\<open>withscores\<close> are used for their truth value
  only and are booleans here. The operations that only check the key (\<^verbatim>\<open>zcard\<close>,
  \<^verbatim>\<open>zrank\<close>, \<^verbatim>\<open>zrem\<close>, \<^verbatim>\<open>zrevrank\<close>), \<^verbatim>\<open>zremrangebyrank\<close> and \<^verbatim>\<open>zscan\<close> take no
  part in the properties below and are left out.
\<close>

text \<open>
  A Python \<^verbatim>\<open>float\<close>. A finite value is given by the rational number it denotes
  (every binary64 number is a rational; the functions below never need to know which
  rationals are binary64 numbers), the negative zero and the three special values
  are constructors of their own.
\<close>

datatype pyfloat = Finite rat | NegZero | PosInf | NegInf | NaN

datatype pyval =
    PNone
  | PBool bool
  | PInt int
  | PFloat pyfloat
  | PBytes string
  | PStr string
  | PList "pyval list"

text \<open>The exception classes that the module and the builtins it calls can raise.\<close>

datatype error = TypeError | ValueError | NotImplementedError | AssertionError | OverflowError

text \<open>
  The reply converters handed to \<^verbatim>\<open>wait_convert\<close>, and what a command method does:
  it either raises, or calls \<^verbatim>\<open>self._conn.execute(name, *args)\<close> exactly once, as its
  last effect, and returns the pending reply, wrapped by \<^verbatim>\<open>wait_convert\<close> when a
  converter is given. No method calls \<^verbatim>\<open>execute\<close> before a \<^verbatim>\<open>raise\<close>, so
  \<open>Raise\<close> is a call that never reached the executor.
\<close>

datatype converter = IntOrFloat | PairsIntOrFloat

datatype outcome = Raise error | Execute string "pyval list" "converter option"

section \<open>The builtins the module relies on\<close>

subsection \<open>\<^verbatim>\<open>isinstance\<close>\<close>

text \<open>\<^verbatim>\<open>bool\<close> is a subclass of \<^verbatim>\<open>int\<close>, so \<^verbatim>\<open>isinstance(True, int)\<close> holds.\<close>

fun isinstance_int :: "pyval \<Rightarrow> bool" where
  "isinstance_int (PInt n) = True"
| "isinstance_int (PBool b) = True"
| "isinstance_int v = False"

fun isinstance_int_float :: "pyval \<Rightarrow> bool" where
  "isinstance_int_float (PInt n) = True"
| "isinstance_int_float (PBool b) = True"
| "isinstance_int_float (PFloat f) = True"
| "isinstance_int_float v = False"

subsection \<open>Comparison of numbers\<close>

text \<open>
  Python compares \<^verbatim>\<open>int\<close> with \<^verbatim>\<open>float\<close> exactly, by value; every comparison with
  a NaN is false. \<open>py_gt\<close> is only reached after both operands have passed
  \<^verbatim>\<open>isinstance(x, (int, float))\<close>.
\<close>

fun as_float :: "pyval \<Rightarrow> pyfloat" where
  "as_float (PInt n) = Finite (of_int n)"
| "as_float (PBool b) = Finite (if b then 1 else 0)"
| "as_float (PFloat f) = f"
| "as_float v = NaN"

fun float_gt :: "pyfloat \<Rightarrow> pyfloat \<Rightarrow> bool" where
  "float_gt NaN y = False"
| "float_gt x NaN = False"
| "float_gt PosInf y = (y \<noteq> PosInf)"
| "float_gt x PosInf = False"
| "float_gt NegInf y = False"
| "float_gt x NegInf = True"
| "float_gt NegZero NegZero = False"
| "float_gt NegZero (Finite b) = (0 > b)"
| "float_gt (Finite a) NegZero = (a > 0)"
| "float_gt (Finite a) (Finite b) = (a > b)"

definition py_gt :: "pyval \<Rightarrow> pyval \<Rightarrow> bool" where
  "py_gt x y = float_gt (as_float x) (as_float y)"

subsection \<open>\<^verbatim>\<open>math.isinf\<close>\<close>

text \<open>
  \<^verbatim>\<open>math.isinf\<close> converts its argument to a C double first. An \<^verbatim>\<open>int\<close> that rounds
  (to nearest, ties to even) beyond the largest binary64 number raises
  \<^verbatim>\<open>OverflowError: int too large to convert to float\<close>; an argument that is not a
  number raises \<^verbatim>\<open>TypeError\<close>.
\<close>

definition int_too_large :: "int \<Rightarrow> bool" where
  "int_too_large n = (\<bar>n\<bar> \<ge> 2 ^ 1024 - 2 ^ 970)"

fun math_isinf :: "pyval \<Rightarrow> error + bool" where
  "math_isinf (PInt n) = (if int_too_large n then Inl OverflowError else Inr False)"
| "math_isinf (PBool b) = Inr False"
| "math_isinf (PFloat f) = Inr (f = PosInf \<or> f = NegInf)"
| "math_isinf v = Inl TypeError"

subsection \<open>\<^verbatim>\<open>str\<close> of a number\<close>

definition digit_char :: "nat \<Rightarrow> char" where
  "digit_char d = char_of (48 + d)"

function digits_of_nat :: "nat \<Rightarrow> string" where
  "digits_of_nat n =
     (if n < 10 then [digit_char n]
      else digits_of_nat (n div 10) @ [digit_char (n mod 10)])"
  by pat_completeness auto
termination
  by (relation "measure id") auto

declare digits_of_nat.simps [simp del]

definition str_int :: "int \<Rightarrow> string" where
  "str_int n = (if n < 0 then CHR ''-'' # digits_of_nat (nat (- n)) else digits_of_nat (nat n))"

text \<open>
  \<^verbatim>\<open>str\<close> of a float is the shortest decimal text that reads back as the same
  binary64 number; the module does not depend on which text that is, so the function is
  a parameter \<open>repr_float\<close> of every operation that formats a bound. The last equation
  is never reached: \<open>py_str\<close> is applied only to a value for which \<open>math_isinf\<close>
  has returned.
\<close>

fun py_str :: "(pyfloat \<Rightarrow> string) \<Rightarrow> pyval \<Rightarrow> string" where
  "py_str repr_float (PInt n) = str_int n"
| "py_str repr_float (PBool b) = (if b then ''True'' else ''False'')"
| "py_str repr_float (PFloat f) = repr_float f"
| "py_str repr_float v = []"

subsection \<open>\<^verbatim>\<open>int\<close> and \<^verbatim>\<open>float\<close> of a text\<close>

text \<open>
  \<^verbatim>\<open>int(x)\<close> and \<^verbatim>\<open>float(x)\<close> accept \<^verbatim>\<open>bytes\<close> and \<^verbatim>\<open>str\<close> alike and raise
  \<^verbatim>\<open>ValueError\<close> on a text that is not a literal. Both strip ASCII white space at
  either end and read an optional sign; digits may be grouped by single underscores.
  Texts are taken to be ASCII, as the replies of the server are. The interpreter's
  configurable limit on the number of digits that \<^verbatim>\<open>int\<close> converts is not modelled.
\<close>

definition is_space :: "char \<Rightarrow> bool" where
  "is_space c = (c \<in> {CHR 0x09, CHR 0x0A, CHR 0x0B, CHR 0x0C, CHR 0x0D, CHR 0x20})"

definition is_digit :: "char \<Rightarrow> bool" where
  "is_digit c = (48 \<le> (of_char c :: nat) \<and> (of_char c :: nat) \<le> 57)"

definition digit_val :: "char \<Rightarrow> nat" where
  "digit_val c = of_char c - 48"

definition strip :: "string \<Rightarrow> string" where
  "strip s = rev (dropWhile is_space (rev (dropWhile is_space s)))"

text \<open>
  \<open>digitpart\<close> checks the grammar \<^verbatim>\<open>digit (["_"] digit)*\<close> and returns the digits
  without the underscores; the flag of \<open>digitpart_from\<close> says that a digit must follow.
\<close>

fun digitpart_from :: "bool \<Rightarrow> string \<Rightarrow> string option" where
  "digitpart_from need [] = (if need then None else Some [])"
| "digitpart_from need (c # cs) =
     (if is_digit c then map_option ((#) c) (digitpart_from False cs)
      else if c = CHR ''_'' \<and> \<not> need then digitpart_from True cs
      else None)"

definition digitpart :: "string \<Rightarrow> string option" where
  "digitpart s = digitpart_from True s"

definition nat_of_digits :: "string \<Rightarrow> nat" where
  "nat_of_digits ds = foldl (\<lambda>acc c. 10 * acc + digit_val c) 0 ds"

definition split_sign :: "string \<Rightarrow> bool \<times> string" where
  "split_sign s =
     (case s of
        [] \<Rightarrow> (False, [])
      | c # cs \<Rightarrow>
          if c = CHR ''-'' then (True, cs)
          else if c = CHR ''+'' then (False, cs)
          else (False, s))"

definition py_int :: "string \<Rightarrow> error + int" where
  "py_int s =
     (case split_sign (strip s) of
        (neg, body) \<Rightarrow>
          (case digitpart body of
             None \<Rightarrow> Inl ValueError
           | Some ds \<Rightarrow> Inr (if neg then - int (nat_of_digits ds) else int (nat_of_digits ds))))"

text \<open>
  A decimal float literal is \<^verbatim>\<open>[digitpart] "." digitpart | digitpart ["."]\<close> with an
  optional exponent \<^verbatim>\<open>("e" | "E") ["+" | "-"] digitpart\<close>; \<open>decimal_value\<close> is the
  rational number it denotes.
\<close>

definition split_at :: "(char \<Rightarrow> bool) \<Rightarrow> string \<Rightarrow> string \<times> string option" where
  "split_at P s =
     (takeWhile (\<lambda>c. \<not> P c) s,
      case dropWhile (\<lambda>c. \<not> P c) s of [] \<Rightarrow> None | c # cs \<Rightarrow> Some cs)"

definition opt_digitpart :: "string \<Rightarrow> string option" where
  "opt_digitpart s = (if s = [] then Some [] else digitpart s)"

definition pow_int :: "rat \<Rightarrow> int \<Rightarrow> rat" where
  "pow_int b e = (if e \<ge> 0 then b ^ nat e else 1 / b ^ nat (- e))"

definition decimal_value :: "string \<Rightarrow> rat option" where
  "decimal_value body =
     (case split_at (\<lambda>c. c = CHR ''e'' \<or> c = CHR ''E'') body of
        (mantissa, exponent) \<Rightarrow>
     (case split_at (\<lambda>c. c = CHR ''.'') mantissa of
        (int_part, frac_part) \<Rightarrow>
     (case opt_digitpart int_part of
        None \<Rightarrow> None
      | Some ids \<Rightarrow>
     (case (case frac_part of None \<Rightarrow> Some [] | Some fp \<Rightarrow> opt_digitpart fp) of
        None \<Rightarrow> None
      | Some fds \<Rightarrow>
          if ids = [] \<and> fds = [] then None
          else
            let m = of_nat (nat_of_digits (ids @ fds)) / 10 ^ length fds
            in (case exponent of
                  None \<Rightarrow> Some m
                | Some ex \<Rightarrow>
                    (case split_sign ex of
                       (eneg, ebody) \<Rightarrow>
                         (case digitpart ebody of
                            None \<Rightarrow> None
                          | Some eds \<Rightarrow>
                              Some (m * pow_int 10
                                     (if eneg then - int (nat_of_digits eds)
                                      else int (nat_of_digits eds))))))))))"

text \<open>
  \<^verbatim>\<open>float\<close> rounds the value of the literal to the nearest binary64 number, ties to
  the even significand: 53 bits, the exponent of the last bit not below \<open>-1074\<close>; a
  result of \<open>2 ^ 1024\<close> or more is an infinity, and a value that rounds to nothing is
  a zero with the sign of the literal.
\<close>

fun bit_length :: "nat \<Rightarrow> nat" where
  "bit_length n = (if n = 0 then 0 else Suc (bit_length (n div 2)))"

declare bit_length.simps [simp del]

definition floor_log2 :: "rat \<Rightarrow> int" where
  "floor_log2 a =
     (if a \<ge> 1 then int (bit_length (nat \<lfloor>a\<rfloor>)) - 1
      else - int (bit_length (nat (\<lceil>1 / a\<rceil> - 1))))"

definition round_half_even :: "rat \<Rightarrow> int" where
  "round_half_even q =
     (let f = \<lfloor>q\<rfloor>; r = q - of_int f
      in if r < 1 / 2 then f
         else if r > 1 / 2 then f + 1
         else if even f then f else f + 1)"

definition round_binary64 :: "bool \<Rightarrow> rat \<Rightarrow> pyfloat" where
  "round_binary64 neg a =
     (if a = 0 then (if neg then NegZero else Finite 0)
      else
        let e = max (floor_log2 a - 52) (- 1074);
            m = round_half_even (a / pow_int 2 e);
            v = of_int m * pow_int 2 e
        in if v \<ge> 2 ^ 1024 then (if neg then NegInf else PosInf)
           else if m = 0 then (if neg then NegZero else Finite 0)
           else Finite (if neg then - v else v))"

definition lower_ascii :: "char \<Rightarrow> char" where
  "lower_ascii c =
     (if 65 \<le> (of_char c :: nat) \<and> (of_char c :: nat) \<le> 90
      then char_of ((of_char c :: nat) + 32) else c)"

definition py_float :: "string \<Rightarrow> error + pyfloat" where
  "py_float s =
     (case split_sign (strip s) of
        (neg, body) \<Rightarrow>
          if map lower_ascii body = ''inf'' \<or> map lower_ascii body = ''infinity''
            then Inr (if neg then NegInf else PosInf)
          else if map lower_ascii body = ''nan'' then Inr NaN
          else (case decimal_value body of
                  None \<Rightarrow> Inl ValueError
                | Some q \<Rightarrow> Inr (round_binary64 neg q)))"

section \<open>The score-range operations\<close>

text \<open>
  The statement
  \<^verbatim>\<open>if not include_min and not math.isinf(min): min = ("(" + str(min)).encode('utf-8')\<close>
  occurs, for \<^verbatim>\<open>min\<close> and for \<^verbatim>\<open>max\<close>, in each of \<^verbatim>\<open>zcount\<close>, \<^verbatim>\<open>zrangebyscore\<close>,
  \<^verbatim>\<open>zremrangebyscore\<close> and \<^verbatim>\<open>zrevrangebyscore\<close>. The \<^verbatim>\<open>and\<close> is short-circuit:
  \<^verbatim>\<open>math.isinf\<close> is evaluated only when the flag is false. The text of a number is
  ASCII, so encoding it as UTF-8 does not change it.
\<close>

definition mark_exclusive :: "(pyfloat \<Rightarrow> string) \<Rightarrow> bool \<Rightarrow> pyval \<Rightarrow> error + pyval" where
  "mark_exclusive repr_float include bound =
     (if include then Inr bound
      else case math_isinf bound of
             Inl e \<Rightarrow> Inl e
           | Inr is_inf \<Rightarrow>
               if is_inf then Inr bound
               else Inr (PBytes (''('' @ py_str repr_float bound)))"

definition zcount ::
  "(pyfloat \<Rightarrow> string) \<Rightarrow> pyval \<Rightarrow> pyval \<Rightarrow> pyval \<Rightarrow> bool \<Rightarrow> bool \<Rightarrow> outcome" where
  "zcount repr_float key min_arg max_arg include_min include_max =
     (if key = PNone then Raise TypeError
      else if \<not> isinstance_int_float min_arg then Raise TypeError
      else if \<not> isinstance_int_float max_arg then Raise TypeError
      else if py_gt min_arg max_arg then Raise ValueError
      else case mark_exclusive repr_float include_min min_arg of
             Inl e \<Rightarrow> Raise e
           | Inr min_enc \<Rightarrow>
               (case mark_exclusive repr_float include_max max_arg of
                  Inl e \<Rightarrow> Raise e
                | Inr max_enc \<Rightarrow> Execute ''ZCOUNT'' [key, min_enc, max_enc] None))"

text \<open>
  The optional arguments \<^verbatim>\<open>offset\<close> and \<^verbatim>\<open>count\<close> default to \<^verbatim>\<open>None\<close>; an argument
  that was not supplied is \<open>PNone\<close>.
\<close>

definition zrangebyscore ::
  "(pyfloat \<Rightarrow> string) \<Rightarrow> pyval \<Rightarrow> pyval \<Rightarrow> pyval \<Rightarrow> bool \<Rightarrow> bool \<Rightarrow> bool \<Rightarrow> pyval \<Rightarrow> pyval
   \<Rightarrow> outcome" where
  "zrangebyscore repr_float key min_arg max_arg include_min include_max withscores offset count =
     (if key = PNone then Raise TypeError
      else if \<not> isinstance_int_float min_arg then Raise TypeError
      else if \<not> isinstance_int_float max_arg then Raise TypeError
      else if (offset \<noteq> PNone \<and> count = PNone) \<or> (count \<noteq> PNone \<and> offset = PNone)
        then Raise TypeError
      else if offset \<noteq> PNone \<and> \<not> isinstance_int offset then Raise TypeError
      else if count \<noteq> PNone \<and> \<not> isinstance_int count then Raise TypeError
      else case mark_exclusive repr_float include_min min_arg of
             Inl e \<Rightarrow> Raise e
           | Inr min_enc \<Rightarrow>
               (case mark_exclusive repr_float include_max max_arg of
                  Inl e \<Rightarrow> Raise e
                | Inr max_enc \<Rightarrow>
                    Execute ''ZRANGEBYSCORE''
                      (key # min_enc # max_enc #
                         (if withscores then [PBytes ''WITHSCORES''] else []) @
                         (if offset \<noteq> PNone \<and> count \<noteq> PNone
                          then [PBytes ''LIMIT'', offset, count] else []))
                      (if withscores then Some PairsIntOrFloat else None)))"

definition zremrangebyscore ::
  "(pyfloat \<Rightarrow> string) \<Rightarrow> pyval \<Rightarrow> pyval \<Rightarrow> pyval \<Rightarrow> bool \<Rightarrow> bool \<Rightarrow> outcome" where
  "zremrangebyscore repr_float key min_arg max_arg include_min include_max =
     (if key = PNone then Raise TypeError
      else if \<not> isinstance_int_float min_arg then Raise TypeError
      else if \<not> isinstance_int_float max_arg then Raise TypeError
      else case mark_exclusive repr_float include_min min_arg of
             Inl e \<Rightarrow> Raise e
           | Inr min_enc \<Rightarrow>
               (case mark_exclusive repr_float include_max max_arg of
                  Inl e \<Rightarrow> Raise e
                | Inr max_enc \<Rightarrow> Execute ''ZREMRANGEBYSCORE'' [key, min_enc, max_enc] None))"

text \<open>
  \<^verbatim>\<open>zrevrangebyscore\<close> takes \<^verbatim>\<open>max\<close> before \<^verbatim>\<open>min\<close>; its body is that of
  \<^verbatim>\<open>zrangebyscore\<close> with the other command name.
\<close>

definition zrevrangebyscore ::
  "(pyfloat \<Rightarrow> string) \<Rightarrow> pyval \<Rightarrow> pyval \<Rightarrow> pyval \<Rightarrow> bool \<Rightarrow> bool \<Rightarrow> bool \<Rightarrow> pyval \<Rightarrow> pyval
   \<Rightarrow> outcome" where
  "zrevrangebyscore repr_float key max_arg min_arg include_min include_max withscores offset count =
     (if key = PNone then Raise TypeError
      else if \<not> isinstance_int_float min_arg then Raise TypeError
      else if \<not> isinstance_int_float max_arg then Raise TypeError
      else if (offset \<noteq> PNone \<and> count = PNone) \<or> (count \<noteq> PNone \<and> offset = PNone)
        then Raise TypeError
      else if offset \<noteq> PNone \<and> \<not> isinstance_int offset then Raise TypeError
      else if count \<noteq> PNone \<and> \<not> isinstance_int count then Raise TypeError
      else case mark_exclusive repr_float include_min min_arg of
             Inl e \<Rightarrow> Raise e
           | Inr min_enc \<Rightarrow>
               (case mark_exclusive repr_float include_max max_arg of
                  Inl e \<Rightarrow> Raise e
                | Inr max_enc \<Rightarrow>
                    Execute ''ZREVRANGEBYSCORE''
                      (key # min_enc # max_enc #
                         (if withscores then [PBytes ''WITHSCORES''] else []) @
                         (if offset \<noteq> PNone \<and> count \<noteq> PNone
                          then [PBytes ''LIMIT'', offset, count] else []))
                      (if withscores then Some PairsIntOrFloat else None)))"

section \<open>The lexicographic-range operations\<close>

text \<open>
  \<^verbatim>\<open>isinstance(min, bytes)\<close> is the case distinction on the constructor; the two
  statements \<^verbatim>\<open>if not min == b'-': min = (b'[' if include_min else b'(') + min\<close> and
  \<^verbatim>\<open>if not max == b'+': max = (b'[' if include_max else b'(') + max\<close> cannot raise.
\<close>

definition zlexcount :: "pyval \<Rightarrow> pyval \<Rightarrow> pyval \<Rightarrow> bool \<Rightarrow> bool \<Rightarrow> outcome" where
  "zlexcount key min_arg max_arg include_min include_max =
     (if key = PNone then Raise TypeError
      else case min_arg of
        PBytes min_b \<Rightarrow>
          (case max_arg of
             PBytes max_b \<Rightarrow>
               (let min_enc = (if \<not> min_b = ''-''
                               then (if include_min then ''['' else ''('') @ min_b else min_b);
                    max_enc = (if \<not> max_b = ''+''
                               then (if include_max then ''['' else ''('') @ max_b else max_b)
                in Execute ''ZLEXCOUNT'' [key, PBytes min_enc, PBytes max_enc] None)
           | _ \<Rightarrow> Raise TypeError)
      | _ \<Rightarrow> Raise TypeError)"

definition zrangebylex ::
  "pyval \<Rightarrow> pyval \<Rightarrow> pyval \<Rightarrow> bool \<Rightarrow> bool \<Rightarrow> pyval \<Rightarrow> pyval \<Rightarrow> outcome" where
  "zrangebylex key min_arg max_arg include_min include_max offset count =
     (if key = PNone then Raise TypeError
      else case min_arg of
        PBytes min_b \<Rightarrow>
          (case max_arg of
             PBytes max_b \<Rightarrow>
               (let min_enc = (if \<not> min_b = ''-''
                               then (if include_min then ''['' else ''('') @ min_b else min_b);
                    max_enc = (if \<not> max_b = ''+''
                               then (if include_max then ''['' else ''('') @ max_b else max_b)
                in if (offset \<noteq> PNone \<and> count = PNone) \<or> (count \<noteq> PNone \<and> offset = PNone)
                     then Raise TypeError
                   else if offset \<noteq> PNone \<and> \<not> isinstance_int offset then Raise TypeError
                   else if count \<noteq> PNone \<and> \<not> isinstance_int count then Raise TypeError
                   else Execute ''ZRANGEBYLEX''
                          (key # PBytes min_enc # PBytes max_enc #
                             (if offset \<noteq> PNone \<and> count \<noteq> PNone
                              then [PBytes ''LIMIT'', offset, count] else []))
                          None)
           | _ \<Rightarrow> Raise TypeError)
      | _ \<Rightarrow> Raise TypeError)"

definition zremrangebylex :: "pyval \<Rightarrow> pyval \<Rightarrow> pyval \<Rightarrow> bool \<Rightarrow> bool \<Rightarrow> outcome" where
  "zremrangebylex key min_arg max_arg include_min include_max =
     (if key = PNone then Raise TypeError
      else case min_arg of
        PBytes min_b \<Rightarrow>
          (case max_arg of
             PBytes max_b \<Rightarrow>
               (let min_enc = (if \<not> min_b = ''-''
                               then (if include_min then ''['' else ''('') @ min_b else min_b);
                    max_enc = (if \<not> max_b = ''+''
                               then (if include_max then ''['' else ''('') @ max_b else max_b)
                in Execute ''ZREMRANGEBYLEX'' [key, PBytes min_enc, PBytes max_enc] None)
           | _ \<Rightarrow> Raise TypeError)
      | _ \<Rightarrow> Raise TypeError)"

section \<open>Adding members, index ranges and scores\<close>

text \<open>
  \<^verbatim>\<open>scores = (item for i, item in enumerate(pairs) if i % 2 == 0)\<close> are the elements of
  \<^verbatim>\<open>pairs\<close> at the even indices.
\<close>

definition zadd :: "pyval \<Rightarrow> pyval \<Rightarrow> pyval \<Rightarrow> pyval list \<Rightarrow> outcome" where
  "zadd key score member pairs =
     (if key = PNone then Raise TypeError
      else if \<not> isinstance_int_float score then Raise TypeError
      else if length pairs mod 2 \<noteq> 0 then Raise TypeError
      else
        let scores = map snd (filter (\<lambda>(i, item). i mod 2 = 0) (enumerate 0 pairs))
        in if list_ex (\<lambda>s. \<not> isinstance_int_float s) scores then Raise TypeError
           else Execute ''ZADD'' (key # score # member # pairs) None)"

definition zrange :: "pyval \<Rightarrow> pyval \<Rightarrow> pyval \<Rightarrow> bool \<Rightarrow> outcome" where
  "zrange key start stop withscores =
     (if key = PNone then Raise TypeError
      else if \<not> isinstance_int start then Raise TypeError
      else if \<not> isinstance_int stop then Raise TypeError
      else Execute ''ZRANGE''
             (key # start # stop # (if withscores then [PBytes ''WITHSCORES''] else []))
             (if withscores then Some PairsIntOrFloat else None))"

definition zrevrange :: "pyval \<Rightarrow> pyval \<Rightarrow> pyval \<Rightarrow> bool \<Rightarrow> outcome" where
  "zrevrange key start stop withscores =
     (if key = PNone then Raise TypeError
      else if \<not> isinstance_int start then Raise TypeError
      else if \<not> isinstance_int stop then Raise TypeError
      else Execute ''ZREVRANGE''
             (key # start # stop # (if withscores then [PBytes ''WITHSCORES''] else []))
             (if withscores then Some PairsIntOrFloat else None))"

definition zincrby :: "pyval \<Rightarrow> pyval \<Rightarrow> pyval \<Rightarrow> outcome" where
  "zincrby key increment member =
     (if key = PNone then Raise TypeError
      else if \<not> isinstance_int_float increment then Raise TypeError
      else Execute ''ZINCRBY'' [key, increment, member] (Some IntOrFloat))"

definition zscore :: "pyval \<Rightarrow> pyval \<Rightarrow> outcome" where
  "zscore key member =
     (if key = PNone then Raise TypeError
      else Execute ''ZSCORE'' [key, member] (Some IntOrFloat))"

section \<open>The reply converters\<close>

text \<open>
  \<^verbatim>\<open>int_or_float\<close> asserts that the reply is a text, tries \<^verbatim>\<open>int\<close> and, on
  \<^verbatim>\<open>ValueError\<close> only, falls back to \<^verbatim>\<open>float\<close>, whose exception it does not catch.
\<close>

definition int_or_float :: "pyval \<Rightarrow> error + pyval" where
  "int_or_float reply =
     (let from_text = (\<lambda>s. case py_int s of
                              Inr n \<Rightarrow> Inr (PInt n)
                            | Inl e \<Rightarrow>
                                if e = ValueError
                                then (case py_float s of
                                        Inr f \<Rightarrow> Inr (PFloat f)
                                      | Inl e' \<Rightarrow> Inl e')
                                else Inl e)
      in case reply of
           PStr s \<Rightarrow> from_text s
         | PBytes s \<Rightarrow> from_text s
         | _ \<Rightarrow> Inl AssertionError)"

text \<open>
  \<^verbatim>\<open>pairs_int_or_float\<close> iterates over its argument: \<^verbatim>\<open>iter\<close> of a list yields its
  elements, of \<^verbatim>\<open>bytes\<close> the byte values, of a \<^verbatim>\<open>str\<close> its characters, and raises
  \<^verbatim>\<open>TypeError\<close> on a value that is not iterable. \<^verbatim>\<open>zip(it, it)\<close> on the one iterator
  pairs consecutive elements and drops a last element that has no partner. \<^verbatim>\<open>sum\<close>
  consumes the generator from the left, appending \<^verbatim>\<open>[val, int_or_float(score)]\<close> to
  its accumulator, so the first score that fails to convert raises.
\<close>

fun py_iter :: "pyval \<Rightarrow> error + pyval list" where
  "py_iter (PList xs) = Inr xs"
| "py_iter (PBytes s) = Inr (map (\<lambda>c. PInt (of_char c)) s)"
| "py_iter (PStr s) = Inr (map (\<lambda>c. PStr [c]) s)"
| "py_iter v = Inl TypeError"

fun zip_it_it :: "'a list \<Rightarrow> ('a \<times> 'a) list" where
  "zip_it_it (val # score # rest) = (val, score) # zip_it_it rest"
| "zip_it_it rest = []"

fun sum_pairs :: "pyval list \<Rightarrow> (pyval \<times> pyval) list \<Rightarrow> error + pyval list" where
  "sum_pairs acc [] = Inr acc"
| "sum_pairs acc ((val, score) # rest) =
     (case int_or_float score of
        Inl e \<Rightarrow> Inl e
      | Inr n \<Rightarrow> sum_pairs (acc @ [val, n]) rest)"

definition pairs_int_or_float :: "pyval \<Rightarrow> error + pyval list" where
  "pairs_int_or_float reply =
     (case py_iter reply of
        Inl e \<Rightarrow> Inl e
      | Inr xs \<Rightarrow> sum_pairs [] (zip_it_it xs))"

text \<open>The function that a converter tag of an outcome stands for.\<close>

fun converter_fun :: "converter \<Rightarrow> pyval \<Rightarrow> error + pyval" where
  "converter_fun IntOrFloat reply = int_or_float reply"
| "converter_fun PairsIntOrFloat reply =
     (case pairs_int_or_float reply of Inl e \<Rightarrow> Inl e | Inr xs \<Rightarrow> Inr (PList xs))"

section \<open>The operations that are not implemented\<close>

definition zinterstore :: "pyval \<Rightarrow> pyval \<Rightarrow> pyval \<Rightarrow> pyval list \<Rightarrow> outcome" where
  "zinterstore destkey numkeys key keys = Raise NotImplementedError"

definition zunionstore :: "pyval \<Rightarrow> pyval \<Rightarrow> pyval \<Rightarrow> pyval list \<Rightarrow> outcome" where
  "zunionstore destkey numkeys key keys = Raise NotImplementedError"

section \<open>The bound encodings in the words of the specification\<close>

text \<open>
  A score bound: an infinite bound is passed through whatever the flag, a finite
  inclusive bound is the raw number, a finite exclusive bound is the text of the number
  after an opening parenthesis.
\<close>

definition is_infinite :: "pyval \<Rightarrow> bool" where
  "is_infinite v = (v = PFloat PosInf \<or> v = PFloat NegInf)"

definition spec_score_bound :: "(pyfloat \<Rightarrow> string) \<Rightarrow> bool \<Rightarrow> pyval \<Rightarrow> pyval" where
  "spec_score_bound repr_float inclusive v =
     (if is_infinite v then v
      else if inclusive then v
      else PBytes (''('' @ py_str repr_float v))"

text \<open>
  The numbers that \<^verbatim>\<open>math.isinf\<close> can convert to a C double: every \<^verbatim>\<open>float\<close> and
  \<^verbatim>\<open>bool\<close>, and the \<^verbatim>\<open>int\<close>s that do not round beyond the largest binary64 number.
\<close>

definition fits_float :: "pyval \<Rightarrow> bool" where
  "fits_float v = (case v of PInt n \<Rightarrow> \<not> int_too_large n | _ \<Rightarrow> True)"

text \<open>
  A lexicographic bound: the sentinel is passed through, any other bound gets an opening
  bracket when it is inclusive and an opening parenthesis when it is exclusive.
\<close>

definition spec_lex_bound :: "string \<Rightarrow> bool \<Rightarrow> string \<Rightarrow> string" where
  "spec_lex_bound sentinel inclusive b =
     (if b = sentinel then b
      else if inclusive then ''['' @ b
      else ''('' @ b)"

section \<open>Auxiliary facts\<close>

lemma isinstance_int_not_None: "isinstance_int v \<Longrightarrow> v \<noteq> PNone"
  by (cases v) simp_all

lemma mark_exclusive_Inr:
  "mark_exclusive repr_float include v = Inr b \<Longrightarrow> b = spec_score_bound repr_float include v"
  by (cases v)
     (auto simp: mark_exclusive_def spec_score_bound_def is_infinite_def
           split: if_splits sum.splits)

lemma mark_exclusive_inclusive: "mark_exclusive repr_float True v = Inr v"
  by (simp add: mark_exclusive_def)

lemma mark_exclusive_ok:
  assumes "isinstance_int_float v" and "include \<or> fits_float v"
  shows "mark_exclusive repr_float include v = Inr (spec_score_bound repr_float include v)"
  using assms
  by (cases v)
     (auto simp: mark_exclusive_def spec_score_bound_def is_infinite_def fits_float_def)

lemma int_too_large_2_1024: "int_too_large (2 ^ 1024)"
  by (simp add: int_too_large_def)

lemma mark_exclusive_too_large:
  "int_too_large n \<Longrightarrow> mark_exclusive repr_float False (PInt n) = Inl OverflowError"
  by (simp add: mark_exclusive_def)

lemma scores_at_even_indices:
  "list_ex P (map snd (filter (\<lambda>(i, item). i mod 2 = 0) (enumerate 0 pairs)))
   \<longleftrightarrow> (\<exists>i<length pairs. even i \<and> P (pairs ! i))"
proof
  assume "list_ex P (map snd (filter (\<lambda>(i, item). i mod 2 = 0) (enumerate 0 pairs)))"
  then obtain p where p: "p \<in> set (enumerate 0 pairs)" "fst p mod 2 = 0" "P (snd p)"
    by (auto simp: list_ex_iff)
  from p(1) have "fst p < length pairs" "pairs ! fst p = snd p"
    by (simp_all add: in_set_enumerate_eq)
  with p(2,3) show "\<exists>i<length pairs. even i \<and> P (pairs ! i)"
    by (auto simp: even_iff_mod_2_eq_zero)
next
  assume "\<exists>i<length pairs. even i \<and> P (pairs ! i)"
  then obtain i where i: "i < length pairs" "even i" "P (pairs ! i)"
    by blast
  then have "(i, pairs ! i) \<in> set (enumerate 0 pairs)"
    by (simp add: in_set_enumerate_eq)
  with i(2) have "(i, pairs ! i) \<in> set (filter (\<lambda>(i, item). i mod 2 = 0) (enumerate 0 pairs))"
    by (simp add: even_iff_mod_2_eq_zero)
  then have "snd (i, pairs ! i) \<in> snd ` set (filter (\<lambda>(i, item). i mod 2 = 0) (enumerate 0 pairs))"
    by (rule imageI)
  then have "pairs ! i \<in> set (map snd (filter (\<lambda>(i, item). i mod 2 = 0) (enumerate 0 pairs)))"
    by simp
  with i(3) show "list_ex P (map snd (filter (\<lambda>(i, item). i mod 2 = 0) (enumerate 0 pairs)))"
    unfolding list_ex_iff by (rule_tac x = "pairs ! i" in bexI)
qed

text \<open>
  What the four score-range operations send when the key is not \<^verbatim>\<open>None\<close>, the bounds
  are \<^verbatim>\<open>int\<close> or \<^verbatim>\<open>float\<close> and \<^verbatim>\<open>math.isinf\<close> can convert each exclusive bound:
  the bounds as the specification encodes them. Only \<^verbatim>\<open>zcount\<close> compares the bounds.
\<close>

lemma score_bounds_encoded:
  assumes "key \<noteq> PNone"
    and "isinstance_int_float min_arg" and "isinstance_int_float max_arg"
    and "include_min \<or> fits_float min_arg" and "include_max \<or> fits_float max_arg"
  shows "zcount repr_float key min_arg max_arg include_min include_max =
           (if py_gt min_arg max_arg then Raise ValueError
            else Execute ''ZCOUNT''
                   [key, spec_score_bound repr_float include_min min_arg,
                         spec_score_bound repr_float include_max max_arg] None)"
    and "zremrangebyscore repr_float key min_arg max_arg include_min include_max =
           Execute ''ZREMRANGEBYSCORE''
             [key, spec_score_bound repr_float include_min min_arg,
                   spec_score_bound repr_float include_max max_arg] None"
    and "zrangebyscore repr_float key min_arg max_arg include_min include_max withscores
           PNone PNone =
           Execute ''ZRANGEBYSCORE''
             (key # spec_score_bound repr_float include_min min_arg
                  # spec_score_bound repr_float include_max max_arg
                  # (if withscores then [PBytes ''WITHSCORES''] else []))
             (if withscores then Some PairsIntOrFloat else None)"
    and "zrevrangebyscore repr_float key max_arg min_arg include_min include_max withscores
           PNone PNone =
           Execute ''ZREVRANGEBYSCORE''
             (key # spec_score_bound repr_float include_min min_arg
                  # spec_score_bound repr_float include_max max_arg
                  # (if withscores then [PBytes ''WITHSCORES''] else []))
             (if withscores then Some PairsIntOrFloat else None)"
proof -
  have lo: "mark_exclusive repr_float include_min min_arg
              = Inr (spec_score_bound repr_float include_min min_arg)"
    and hi: "mark_exclusive repr_float include_max max_arg
              = Inr (spec_score_bound repr_float include_max max_arg)"
    using assms by (simp_all add: mark_exclusive_ok)
  show "zcount repr_float key min_arg max_arg include_min include_max =
           (if py_gt min_arg max_arg then Raise ValueError
            else Execute ''ZCOUNT''
                   [key, spec_score_bound repr_float include_min min_arg,
                         spec_score_bound repr_float include_max max_arg] None)"
    using assms by (simp add: zcount_def lo hi)
  show "zremrangebyscore repr_float key min_arg max_arg include_min include_max =
           Execute ''ZREMRANGEBYSCORE''
             [key, spec_score_bound repr_float include_min min_arg,
                   spec_score_bound repr_float include_max max_arg] None"
    using assms by (simp add: zremrangebyscore_def lo hi)
  show "zrangebyscore repr_float key min_arg max_arg include_min include_max withscores
           PNone PNone =
           Execute ''ZRANGEBYSCORE''
             (key # spec_score_bound repr_float include_min min_arg
                  # spec_score_bound repr_float include_max max_arg
                  # (if withscores then [PBytes ''WITHSCORES''] else []))
             (if withscores then Some PairsIntOrFloat else None)"
    using assms by (simp add: zrangebyscore_def lo hi)
  show "zrevrangebyscore repr_float key max_arg min_arg include_min include_max withscores
           PNone PNone =
           Execute ''ZREVRANGEBYSCORE''
             (key # spec_score_bound repr_float include_min min_arg
                  # spec_score_bound repr_float include_max max_arg
                  # (if withscores then [PBytes ''WITHSCORES''] else []))
             (if withscores then Some PairsIntOrFloat else None)"
    using assms by (simp add: zrevrangebyscore_def lo hi)
qed

text \<open>The three cases of the encoding, for the bounds that are numbers.\<close>

lemma spec_score_bound_cases:
  "spec_score_bound repr_float include (PFloat PosInf) = PFloat PosInf"
  "spec_score_bound repr_float include (PFloat NegInf) = PFloat NegInf"
  "spec_score_bound repr_float True v = v"
  "spec_score_bound repr_float False (PInt n) = PBytes (''('' @ str_int n)"
  "f \<noteq> PosInf \<Longrightarrow> f \<noteq> NegInf \<Longrightarrow>
     spec_score_bound repr_float False (PFloat f) = PBytes (''('' @ repr_float f)"
  by (simp_all add: spec_score_bound_def is_infinite_def)

text \<open>With a minimum above the maximum the other three operations still send.\<close>

lemma score_ranges_unchecked:
  assumes "key \<noteq> PNone"
    and "isinstance_int_float min_arg" and "isinstance_int_float max_arg"
    and "include_min \<or> fits_float min_arg" and "include_max \<or> fits_float max_arg"
    and "py_gt min_arg max_arg"
  shows "zcount repr_float key min_arg max_arg include_min include_max = Raise ValueError"
    and "\<exists>args. zremrangebyscore repr_float key min_arg max_arg include_min include_max
                  = Execute ''ZREMRANGEBYSCORE'' args None"
    and "\<exists>args conv. zrangebyscore repr_float key min_arg max_arg include_min include_max
                  withscores PNone PNone = Execute ''ZRANGEBYSCORE'' args conv"
    and "\<exists>args conv. zrevrangebyscore repr_float key max_arg min_arg include_min include_max
                  withscores PNone PNone = Execute ''ZREVRANGEBYSCORE'' args conv"
  using assms by (simp_all add: score_bounds_encoded)

text \<open>The reply converters.\<close>

lemma py_int_error: "py_int s = Inl e \<Longrightarrow> e = ValueError"
  by (auto simp: py_int_def split: prod.splits option.splits)

lemma zip_it_it_alternating:
  "zip_it_it (concat (map (\<lambda>(m, s). [m, s]) ps)) = ps"
  by (induction ps) auto

lemma sum_pairs_decodes:
  assumes "\<forall>(m, s) \<in> set ps. \<not> isl (int_or_float s)"
  shows "sum_pairs acc ps
           = Inr (acc @ concat (map (\<lambda>(m, s). [m, projr (int_or_float s)]) ps))"
  using assms
proof (induction ps arbitrary: acc)
  case Nil
  show ?case by simp
next
  case (Cons p ps)
  obtain m s where p: "p = (m, s)"
    by (cases p)
  from Cons.prems p obtain d where d: "int_or_float s = Inr d"
    by (cases "int_or_float s") auto
  from Cons.prems have rest: "\<forall>(m, s) \<in> set ps. \<not> isl (int_or_float s)"
    by simp
  show ?case
    by (simp add: p d Cons.IH [OF rest])
qed

text \<open>
  \<^verbatim>\<open>int\<close> reads back the text that \<^verbatim>\<open>str\<close> writes for an integer, so a reply that is
  the decimal text of an integer is converted to that integer.
\<close>

lemma is_digit_digit_char: "d < 10 \<Longrightarrow> is_digit (digit_char d)"
  by (simp add: is_digit_def digit_char_def)

lemma digit_val_digit_char: "d < 10 \<Longrightarrow> digit_val (digit_char d) = d"
  by (simp add: digit_val_def digit_char_def)

lemma is_digit_not_space: "is_digit c \<Longrightarrow> \<not> is_space c"
  by (auto simp: is_digit_def is_space_def)

lemma is_digit_not_sign: "is_digit c \<Longrightarrow> c \<noteq> CHR ''-'' \<and> c \<noteq> CHR ''+'' \<and> c \<noteq> CHR ''_''"
  by (auto simp: is_digit_def)

lemma digits_of_nat_digits: "list_all is_digit (digits_of_nat n) \<and> digits_of_nat n \<noteq> []"
proof (induction n rule: digits_of_nat.induct)
  case (1 n)
  show ?case
  proof (cases "n < 10")
    case True
    then show ?thesis
      by (simp add: digits_of_nat.simps [of n] is_digit_digit_char)
  next
    case False
    with "1.IH" show ?thesis
      by (simp add: digits_of_nat.simps [of n] is_digit_digit_char)
  qed
qed

lemma nat_of_digits_snoc: "nat_of_digits (ds @ [c]) = 10 * nat_of_digits ds + digit_val c"
  by (simp add: nat_of_digits_def)

lemma nat_of_digits_of_nat: "nat_of_digits (digits_of_nat n) = n"
proof (induction n rule: digits_of_nat.induct)
  case (1 n)
  show ?case
  proof (cases "n < 10")
    case True
    then show ?thesis
      by (simp add: digits_of_nat.simps [of n] nat_of_digits_def digit_val_digit_char)
  next
    case False
    with "1.IH" show ?thesis
      by (simp add: digits_of_nat.simps [of n] nat_of_digits_snoc digit_val_digit_char)
  qed
qed

lemma digitpart_from_digits:
  "list_all is_digit ds \<Longrightarrow> need \<longrightarrow> ds \<noteq> [] \<Longrightarrow> digitpart_from need ds = Some ds"
  by (induction ds arbitrary: need) auto

lemma strip_unchanged:
  assumes "s \<noteq> []" and "\<not> is_space (hd s)" and "\<not> is_space (last s)"
  shows "strip s = s"
proof -
  from assms(1,2) have front: "dropWhile is_space s = s"
    by (cases s) simp_all
  from assms(1,3) have "dropWhile is_space (rev s) = rev s"
    by (cases "rev s") (simp_all add: last_rev [symmetric] del: last_rev)
  with front show ?thesis
    by (simp add: strip_def)
qed

lemma py_int_str_int: "py_int (str_int n) = Inr n"
proof -
  define ds where "ds = digits_of_nat (nat \<bar>n\<bar>)"
  have digits: "list_all is_digit ds" and nonempty: "ds \<noteq> []"
    using digits_of_nat_digits [of "nat \<bar>n\<bar>"] by (simp_all add: ds_def)
  have val: "nat_of_digits ds = nat \<bar>n\<bar>"
    by (simp add: ds_def nat_of_digits_of_nat)
  from digits nonempty have first: "is_digit (hd ds)" and final: "is_digit (last ds)"
    by (simp_all add: list_all_iff)
  have part: "digitpart ds = Some ds"
    using digits nonempty by (simp add: digitpart_def digitpart_from_digits)
  show ?thesis
  proof (cases "n < 0")
    case True
    then have txt_eq: "str_int n = CHR ''-'' # ds"
      by (simp add: str_int_def ds_def)
    have minus: "\<not> is_space (CHR ''-'')"
      by (simp add: is_space_def)
    from final have "\<not> is_space (last ds)"
      by (rule is_digit_not_space)
    with nonempty minus have "strip (CHR ''-'' # ds) = CHR ''-'' # ds"
      by (intro strip_unchanged) simp_all
    with True part val show ?thesis
      by (simp add: py_int_def txt_eq split_sign_def)
  next
    case False
    then have txt_eq: "str_int n = ds"
      by (simp add: str_int_def ds_def)
    have "strip ds = ds"
      using nonempty first final by (intro strip_unchanged) (simp_all add: is_digit_not_space)
    moreover have "split_sign ds = (False, ds)"
      using nonempty first by (cases ds) (auto simp: split_sign_def dest: is_digit_not_sign)
    ultimately show ?thesis
      using False part val by (simp add: py_int_def txt_eq)
  qed
qed

lemma int_or_float_str_int: "int_or_float (PBytes (str_int n)) = Inr (PInt n)"
  by (simp add: int_or_float_def py_int_str_int)

section \<open>Properties\<close>

text \<open>
  Claim C6. For every key other than \<^verbatim>\<open>None\<close> and all \<^verbatim>\<open>int\<close> or \<^verbatim>\<open>float\<close> values
  \<open>min\<close> and \<open>max\<close> with \<open>min > max\<close>, whatever the flags, \<^verbatim>\<open>zcount\<close> raises
  \<^verbatim>\<open>ValueError\<close>, so it does not reach \<^verbatim>\<open>execute\<close>.
\<close>

theorem zcount_min_gt_max_raises:
  assumes "key \<noteq> PNone"
    and "isinstance_int_float min_arg" and "isinstance_int_float max_arg"
    and "py_gt min_arg max_arg"
  shows "zcount repr_float key min_arg max_arg include_min include_max = Raise ValueError"
  using assms by (simp add: zcount_def)

theorem zcount_min_gt_max_raises_witness:
  "PBytes ''k'' \<noteq> PNone \<and> isinstance_int_float (PInt 5) \<and> isinstance_int_float (PInt 1)
   \<and> py_gt (PInt 5) (PInt 1)
   \<and> zcount (\<lambda>f. []) (PBytes ''k'') (PInt 5) (PInt 1) True True = Raise ValueError"
  using zcount_min_gt_max_raises [of "PBytes ''k''" "PInt 5" "PInt 1" "\<lambda>f. []" True True]
  by (simp add: py_gt_def)

text \<open>
  Claim C7. Whatever their arguments, \<^verbatim>\<open>zunionstore\<close> and \<^verbatim>\<open>zinterstore\<close> raise
  \<^verbatim>\<open>NotImplementedError\<close>; the outcome is never a call of \<^verbatim>\<open>execute\<close>.
\<close>

theorem zstore_not_implemented:
  "zunionstore destkey numkeys key keys = Raise NotImplementedError
   \<and> zinterstore destkey numkeys key keys = Raise NotImplementedError"
  by (simp add: zunionstore_def zinterstore_def)

text \<open>
  Claim C2. In \<^verbatim>\<open>zlexcount\<close>, \<^verbatim>\<open>zrangebylex\<close> and \<^verbatim>\<open>zremrangebylex\<close>, called with a
  key and byte-string bounds, the minimum \<^verbatim>\<open>b"-"\<close> and the maximum \<^verbatim>\<open>b"+"\<close> are sent
  unchanged and any other bound is sent with the prefix \<^verbatim>\<open>b"["\<close> when its flag is
  true and \<^verbatim>\<open>b"("\<close> when it is false. (\<^verbatim>\<open>zrangebylex\<close> is stated for an
  \<^verbatim>\<open>offset\<close> and \<^verbatim>\<open>count\<close> that pass its check: both absent or both \<^verbatim>\<open>int\<close>.)
\<close>

theorem lex_bounds_encoded:
  assumes "key \<noteq> PNone"
  shows "zlexcount key (PBytes min_b) (PBytes max_b) include_min include_max =
           Execute ''ZLEXCOUNT''
             [key, PBytes (spec_lex_bound ''-'' include_min min_b),
                   PBytes (spec_lex_bound ''+'' include_max max_b)] None
       \<and> zremrangebylex key (PBytes min_b) (PBytes max_b) include_min include_max =
           Execute ''ZREMRANGEBYLEX''
             [key, PBytes (spec_lex_bound ''-'' include_min min_b),
                   PBytes (spec_lex_bound ''+'' include_max max_b)] None
       \<and> zrangebylex key (PBytes min_b) (PBytes max_b) include_min include_max PNone PNone =
           Execute ''ZRANGEBYLEX''
             [key, PBytes (spec_lex_bound ''-'' include_min min_b),
                   PBytes (spec_lex_bound ''+'' include_max max_b)] None
       \<and> (isinstance_int offset \<and> isinstance_int count \<longrightarrow>
            zrangebylex key (PBytes min_b) (PBytes max_b) include_min include_max offset count =
              Execute ''ZRANGEBYLEX''
                [key, PBytes (spec_lex_bound ''-'' include_min min_b),
                      PBytes (spec_lex_bound ''+'' include_max max_b),
                      PBytes ''LIMIT'', offset, count] None)"
proof -
  have not_none: "isinstance_int v \<Longrightarrow> v \<noteq> PNone" for v
    by (cases v) simp_all
  show ?thesis
    using assms
    by (auto simp: zlexcount_def zremrangebylex_def zrangebylex_def spec_lex_bound_def
          Let_def dest: not_none)
qed

theorem lex_bounds_encoded_witness:
  "zlexcount (PBytes ''k'') (PBytes ''-'') (PBytes ''m'') False False =
     Execute ''ZLEXCOUNT'' [PBytes ''k'', PBytes ''-'', PBytes ''(m''] None
   \<and> zremrangebylex (PBytes ''k'') (PBytes ''a'') (PBytes ''+'') True False =
     Execute ''ZREMRANGEBYLEX'' [PBytes ''k'', PBytes ''[a'', PBytes ''+''] None
   \<and> zrangebylex (PBytes ''k'') (PBytes ''+'') (PBytes ''-'') True False (PInt 0) (PInt 3) =
     Execute ''ZRANGEBYLEX''
       [PBytes ''k'', PBytes ''[+'', PBytes ''(-'', PBytes ''LIMIT'', PInt 0, PInt 3] None"
  using lex_bounds_encoded [of "PBytes ''k''" "''-''" "''m''" False False "PInt 0" "PInt 3"]
    lex_bounds_encoded [of "PBytes ''k''" "''a''" "''+''" True False "PInt 0" "PInt 3"]
    lex_bounds_encoded [of "PBytes ''k''" "''+''" "''-''" True False "PInt 0" "PInt 3"]
  by (simp add: spec_lex_bound_def)

text \<open>
  Claim C5. In \<^verbatim>\<open>zrangebylex\<close>, \<^verbatim>\<open>zrangebyscore\<close> and \<^verbatim>\<open>zrevrangebyscore\<close>, whatever
  the other arguments: when exactly one of \<^verbatim>\<open>offset\<close> and \<^verbatim>\<open>count\<close> is \<^verbatim>\<open>None\<close> the call
  raises \<^verbatim>\<open>TypeError\<close> (so \<^verbatim>\<open>execute\<close> is not called); when both are supplied, every
  command that is sent ends with the arguments \<^verbatim>\<open>b"LIMIT"\<close>, \<^verbatim>\<open>offset\<close>, \<^verbatim>\<open>count\<close>, and a
  command is sent when the key is not \<^verbatim>\<open>None\<close>, both are \<^verbatim>\<open>int\<close> and the bounds
  are of the right type (shown for inclusive bounds).
\<close>

theorem limit_pair_checked:
  "((offset = PNone) \<noteq> (count = PNone) \<longrightarrow>
      zrangebylex key min_arg max_arg include_min include_max offset count = Raise TypeError
    \<and> zrangebyscore repr_float key min_arg max_arg include_min include_max withscores offset count
        = Raise TypeError
    \<and> zrevrangebyscore repr_float key max_arg min_arg include_min include_max withscores offset count
        = Raise TypeError)
   \<and> (offset \<noteq> PNone \<and> count \<noteq> PNone \<longrightarrow>
        (zrangebylex key min_arg max_arg include_min include_max offset count
           = Execute name args conv
         \<longrightarrow> (\<exists>front. args = front @ [PBytes ''LIMIT'', offset, count]))
      \<and> (zrangebyscore repr_float key min_arg max_arg include_min include_max withscores
           offset count = Execute name args conv
         \<longrightarrow> (\<exists>front. args = front @ [PBytes ''LIMIT'', offset, count]))
      \<and> (zrevrangebyscore repr_float key max_arg min_arg include_min include_max withscores
           offset count = Execute name args conv
         \<longrightarrow> (\<exists>front. args = front @ [PBytes ''LIMIT'', offset, count])))
   \<and> (key \<noteq> PNone \<and> isinstance_int offset \<and> isinstance_int count \<longrightarrow>
        zrangebylex key (PBytes min_b) (PBytes max_b) True True offset count =
          Execute ''ZRANGEBYLEX''
            ([key, PBytes (spec_lex_bound ''-'' True min_b),
                   PBytes (spec_lex_bound ''+'' True max_b)]
             @ [PBytes ''LIMIT'', offset, count]) None
      \<and> (isinstance_int_float min_arg \<and> isinstance_int_float max_arg \<longrightarrow>
           zrangebyscore repr_float key min_arg max_arg True True False offset count =
             Execute ''ZRANGEBYSCORE''
               ([key, min_arg, max_arg] @ [PBytes ''LIMIT'', offset, count]) None
         \<and> zrevrangebyscore repr_float key max_arg min_arg True True False offset count =
             Execute ''ZREVRANGEBYSCORE''
               ([key, min_arg, max_arg] @ [PBytes ''LIMIT'', offset, count]) None))"
proof (intro conjI impI)
  assume one: "(offset = PNone) \<noteq> (count = PNone)"
  show "zrangebylex key min_arg max_arg include_min include_max offset count = Raise TypeError"
    using one by (auto simp: zrangebylex_def Let_def split: pyval.splits)
  show "zrangebyscore repr_float key min_arg max_arg include_min include_max withscores offset
          count = Raise TypeError"
    using one by (auto simp: zrangebyscore_def)
  show "zrevrangebyscore repr_float key max_arg min_arg include_min include_max withscores offset
          count = Raise TypeError"
    using one by (auto simp: zrevrangebyscore_def)
next
  assume "offset \<noteq> PNone \<and> count \<noteq> PNone"
    and "zrangebylex key min_arg max_arg include_min include_max offset count
           = Execute name args conv"
  then show "\<exists>front. args = front @ [PBytes ''LIMIT'', offset, count]"
    by (auto simp: zrangebylex_def Let_def split: pyval.splits if_splits)
next
  assume "offset \<noteq> PNone \<and> count \<noteq> PNone"
    and "zrangebyscore repr_float key min_arg max_arg include_min include_max withscores
           offset count = Execute name args conv"
  then show "\<exists>front. args = front @ [PBytes ''LIMIT'', offset, count]"
    by (auto simp: zrangebyscore_def split: if_splits sum.splits)
next
  assume "offset \<noteq> PNone \<and> count \<noteq> PNone"
    and "zrevrangebyscore repr_float key max_arg min_arg include_min include_max withscores
           offset count = Execute name args conv"
  then show "\<exists>front. args = front @ [PBytes ''LIMIT'', offset, count]"
    by (auto simp: zrevrangebyscore_def split: if_splits sum.splits)
next
  assume ok: "key \<noteq> PNone \<and> isinstance_int offset \<and> isinstance_int count"
  then have some: "offset \<noteq> PNone" "count \<noteq> PNone"
    by (auto dest: isinstance_int_not_None)
  show "zrangebylex key (PBytes min_b) (PBytes max_b) True True offset count =
          Execute ''ZRANGEBYLEX''
            ([key, PBytes (spec_lex_bound ''-'' True min_b),
                   PBytes (spec_lex_bound ''+'' True max_b)]
             @ [PBytes ''LIMIT'', offset, count]) None"
    using ok some by (simp add: zrangebylex_def Let_def spec_lex_bound_def)
  assume num: "isinstance_int_float min_arg \<and> isinstance_int_float max_arg"
  show "zrangebyscore repr_float key min_arg max_arg True True False offset count =
          Execute ''ZRANGEBYSCORE''
            ([key, min_arg, max_arg] @ [PBytes ''LIMIT'', offset, count]) None"
    using ok some num by (simp add: zrangebyscore_def mark_exclusive_inclusive)
  show "zrevrangebyscore repr_float key max_arg min_arg True True False offset count =
          Execute ''ZREVRANGEBYSCORE''
            ([key, min_arg, max_arg] @ [PBytes ''LIMIT'', offset, count]) None"
    using ok some num by (simp add: zrevrangebyscore_def mark_exclusive_inclusive)
qed

theorem limit_pair_checked_witness:
  "zrangebylex (PBytes ''k'') (PBytes ''a'') (PBytes ''b'') True True (PInt 0) PNone
     = Raise TypeError
   \<and> zrangebyscore (\<lambda>f. []) (PBytes ''k'') (PInt 1) (PInt 2) True True False (PInt 0) PNone
     = Raise TypeError
   \<and> zrevrangebyscore (\<lambda>f. []) (PBytes ''k'') (PInt 2) (PInt 1) True True False (PInt 0) PNone
     = Raise TypeError
   \<and> zrangebylex (PBytes ''k'') (PBytes ''a'') (PBytes ''b'') True True (PInt 0) (PInt 5)
     = Execute ''ZRANGEBYLEX''
         [PBytes ''k'', PBytes ''[a'', PBytes ''[b'', PBytes ''LIMIT'', PInt 0, PInt 5] None
   \<and> zrangebyscore (\<lambda>f. []) (PBytes ''k'') (PInt 1) (PInt 2) True True False (PInt 0) (PInt 5)
     = Execute ''ZRANGEBYSCORE''
         [PBytes ''k'', PInt 1, PInt 2, PBytes ''LIMIT'', PInt 0, PInt 5] None
   \<and> zrevrangebyscore (\<lambda>f. []) (PBytes ''k'') (PInt 2) (PInt 1) True True False (PInt 0) (PInt 5)
     = Execute ''ZREVRANGEBYSCORE''
         [PBytes ''k'', PInt 1, PInt 2, PBytes ''LIMIT'', PInt 0, PInt 5] None"
proof -
  note lex = limit_pair_checked [where offset = "PInt 0" and count = PNone
      and key = "PBytes ''k''" and min_arg = "PBytes ''a''" and max_arg = "PBytes ''b''"
      and include_min = True and include_max = True]
  note one = limit_pair_checked [where offset = "PInt 0" and count = PNone
      and key = "PBytes ''k''" and min_arg = "PInt 1" and max_arg = "PInt 2"
      and include_min = True and include_max = True and withscores = False
      and repr_float = "\<lambda>f. []"]
  note both = limit_pair_checked [where offset = "PInt 0" and count = "PInt 5"
      and key = "PBytes ''k''" and min_arg = "PInt 1" and max_arg = "PInt 2"
      and min_b = "''a''" and max_b = "''b''" and repr_float = "\<lambda>f. []"]
  from lex have "zrangebylex (PBytes ''k'') (PBytes ''a'') (PBytes ''b'') True True (PInt 0) PNone
     = Raise TypeError"
    by simp
  moreover from one have
    "zrangebyscore (\<lambda>f. []) (PBytes ''k'') (PInt 1) (PInt 2) True True False (PInt 0) PNone
       = Raise TypeError
     \<and> zrevrangebyscore (\<lambda>f. []) (PBytes ''k'') (PInt 2) (PInt 1) True True False (PInt 0) PNone
       = Raise TypeError"
    by simp
  moreover from both have
    "zrangebylex (PBytes ''k'') (PBytes ''a'') (PBytes ''b'') True True (PInt 0) (PInt 5)
     = Execute ''ZRANGEBYLEX''
         [PBytes ''k'', PBytes ''[a'', PBytes ''[b'', PBytes ''LIMIT'', PInt 0, PInt 5] None
   \<and> zrangebyscore (\<lambda>f. []) (PBytes ''k'') (PInt 1) (PInt 2) True True False (PInt 0) (PInt 5)
     = Execute ''ZRANGEBYSCORE''
         [PBytes ''k'', PInt 1, PInt 2, PBytes ''LIMIT'', PInt 0, PInt 5] None
   \<and> zrevrangebyscore (\<lambda>f. []) (PBytes ''k'') (PInt 2) (PInt 1) True True False (PInt 0) (PInt 5)
     = Execute ''ZREVRANGEBYSCORE''
         [PBytes ''k'', PInt 1, PInt 2, PBytes ''LIMIT'', PInt 0, PInt 5] None"
    by (simp add: spec_lex_bound_def)
  ultimately show ?thesis
    by simp
qed

text \<open>
  Claim C9. \<^verbatim>\<open>zadd\<close> raises \<^verbatim>\<open>TypeError\<close> exactly when the key is \<^verbatim>\<open>None\<close>, or the
  score is not an \<^verbatim>\<open>int\<close> or \<^verbatim>\<open>float\<close>, or \<^verbatim>\<open>pairs\<close> has odd length, or an element of
  \<^verbatim>\<open>pairs\<close> at an even index is not an \<^verbatim>\<open>int\<close> or \<^verbatim>\<open>float\<close>; in every other case it
  sends \<^verbatim>\<open>ZADD\<close> with the key, the score, the member and then the pairs as given.
\<close>

theorem zadd_type_errors:
  "zadd key score member pairs =
     (if key = PNone \<or> \<not> isinstance_int_float score \<or> odd (length pairs)
         \<or> (\<exists>i<length pairs. even i \<and> \<not> isinstance_int_float (pairs ! i))
      then Raise TypeError
      else Execute ''ZADD'' (key # score # member # pairs) None)"
proof -
  have parity: "(length pairs mod 2 \<noteq> 0) = odd (length pairs)"
    by presburger
  show ?thesis
    unfolding zadd_def Let_def scores_at_even_indices parity by auto
qed

theorem zadd_type_errors_witness:
  "zadd (PBytes ''k'') (PInt 1) (PBytes ''a'') [PFloat (Finite (5 / 2)), PBytes ''b''] =
     Execute ''ZADD''
       [PBytes ''k'', PInt 1, PBytes ''a'', PFloat (Finite (5 / 2)), PBytes ''b''] None
   \<and> zadd (PBytes ''k'') (PInt 1) (PBytes ''a'') [PInt 2, PBytes ''b'', PBytes ''x'', PBytes ''c'']
       = Raise TypeError
   \<and> zadd (PBytes ''k'') (PInt 1) (PBytes ''a'') [PInt 2] = Raise TypeError
   \<and> zadd (PBytes ''k'') (PBytes ''1'') (PBytes ''a'') [] = Raise TypeError
   \<and> zadd PNone (PInt 1) (PBytes ''a'') [] = Raise TypeError"
proof -
  let ?good = "[PFloat (Finite (5 / 2)), PBytes ''b'']"
  let ?bad = "[PInt 2, PBytes ''b'', PBytes ''x'', PBytes ''c'']"
  have bad: "\<exists>i<length ?bad. even i \<and> \<not> isinstance_int_float (?bad ! i)"
    by (rule exI [of _ 2]) simp
  have good: "\<not> (\<exists>i<length ?good. even i \<and> \<not> isinstance_int_float (?good ! i))"
  proof
    assume "\<exists>i<length ?good. even i \<and> \<not> isinstance_int_float (?good ! i)"
    then obtain i where i: "i < length ?good" "even i" "\<not> isinstance_int_float (?good ! i)"
      by blast
    from i(1,2) have "i = 0"
      by (cases i) auto
    with i(3) show False
      by simp
  qed
  have c1: "zadd (PBytes ''k'') (PInt 1) (PBytes ''a'') ?good =
              Execute ''ZADD'' (PBytes ''k'' # PInt 1 # PBytes ''a'' # ?good) None"
    unfolding zadd_type_errors [of "PBytes ''k''" "PInt 1" "PBytes ''a''" ?good]
    using good by simp
  have c2: "zadd (PBytes ''k'') (PInt 1) (PBytes ''a'') ?bad = Raise TypeError"
    unfolding zadd_type_errors [of "PBytes ''k''" "PInt 1" "PBytes ''a''" ?bad]
    using bad by simp
  have c3: "zadd (PBytes ''k'') (PInt 1) (PBytes ''a'') [PInt 2] = Raise TypeError"
    unfolding zadd_type_errors [of "PBytes ''k''" "PInt 1" "PBytes ''a''" "[PInt 2]"]
    by simp
  have c4: "zadd (PBytes ''k'') (PBytes ''1'') (PBytes ''a'') [] = Raise TypeError"
    unfolding zadd_type_errors [of "PBytes ''k''" "PBytes ''1''" "PBytes ''a''" "[]"]
    by simp
  have c5: "zadd PNone (PInt 1) (PBytes ''a'') [] = Raise TypeError"
    unfolding zadd_type_errors [of PNone "PInt 1" "PBytes ''a''" "[]"]
    by simp
  from c1 c2 c3 c4 c5 show ?thesis by simp
qed

text \<open>
  Claim C10. \<^verbatim>\<open>zrevrangebyscore\<close> takes \<^verbatim>\<open>max\<close> before \<^verbatim>\<open>min\<close> but sends the minimum
  before the maximum: every command it sends is \<^verbatim>\<open>ZREVRANGEBYSCORE\<close> with the key, the
  encoded minimum, the encoded maximum, then \<^verbatim>\<open>WITHSCORES\<close> and \<^verbatim>\<open>LIMIT offset count\<close>
  when asked for, which are the arguments that \<^verbatim>\<open>zrangebyscore\<close> sends for the same
  bounds. A command is sent whenever the arguments pass the checks and
  \<^verbatim>\<open>math.isinf\<close> can convert each exclusive bound.
\<close>

theorem zrevrangebyscore_wire_order:
  "(zrevrangebyscore repr_float key max_arg min_arg include_min include_max withscores offset count
      = Execute name args conv
    \<longrightarrow> name = ''ZREVRANGEBYSCORE''
      \<and> args = key # spec_score_bound repr_float include_min min_arg
                   # spec_score_bound repr_float include_max max_arg
                   # (if withscores then [PBytes ''WITHSCORES''] else [])
                   @ (if offset \<noteq> PNone then [PBytes ''LIMIT'', offset, count] else [])
      \<and> zrangebyscore repr_float key min_arg max_arg include_min include_max withscores offset
           count = Execute ''ZRANGEBYSCORE'' args conv)
   \<and> (key \<noteq> PNone \<and> isinstance_int_float min_arg \<and> isinstance_int_float max_arg
      \<and> (offset = PNone \<and> count = PNone \<or> isinstance_int offset \<and> isinstance_int count)
      \<and> (include_min \<or> fits_float min_arg) \<and> (include_max \<or> fits_float max_arg)
    \<longrightarrow> zrevrangebyscore repr_float key max_arg min_arg include_min include_max withscores offset
          count
        = Execute ''ZREVRANGEBYSCORE''
            (key # spec_score_bound repr_float include_min min_arg
                 # spec_score_bound repr_float include_max max_arg
                 # (if withscores then [PBytes ''WITHSCORES''] else [])
                 @ (if offset \<noteq> PNone then [PBytes ''LIMIT'', offset, count] else []))
            (if withscores then Some PairsIntOrFloat else None))"
proof (intro conjI impI)
  assume sent: "zrevrangebyscore repr_float key max_arg min_arg include_min include_max withscores
                  offset count = Execute name args conv"
  then obtain lo hi where
    lo: "mark_exclusive repr_float include_min min_arg = Inr lo" and
    hi: "mark_exclusive repr_float include_max max_arg = Inr hi"
    by (auto simp: zrevrangebyscore_def split: if_splits sum.splits)
  note enc = mark_exclusive_Inr [OF lo] mark_exclusive_Inr [OF hi]
  from sent show "name = ''ZREVRANGEBYSCORE''"
    by (auto simp: zrevrangebyscore_def split: if_splits sum.splits)
  from sent lo hi show
    "args = key # spec_score_bound repr_float include_min min_arg
                # spec_score_bound repr_float include_max max_arg
                # (if withscores then [PBytes ''WITHSCORES''] else [])
                @ (if offset \<noteq> PNone then [PBytes ''LIMIT'', offset, count] else [])"
    unfolding enc [symmetric]
    by (auto simp: zrevrangebyscore_def split: if_splits)
  from sent lo hi show
    "zrangebyscore repr_float key min_arg max_arg include_min include_max withscores offset count
       = Execute ''ZRANGEBYSCORE'' args conv"
    by (auto simp: zrevrangebyscore_def zrangebyscore_def split: if_splits)
next
  assume ok: "key \<noteq> PNone \<and> isinstance_int_float min_arg \<and> isinstance_int_float max_arg
      \<and> (offset = PNone \<and> count = PNone \<or> isinstance_int offset \<and> isinstance_int count)
      \<and> (include_min \<or> fits_float min_arg) \<and> (include_max \<or> fits_float max_arg)"
  then have lo: "mark_exclusive repr_float include_min min_arg
                   = Inr (spec_score_bound repr_float include_min min_arg)"
    and hi: "mark_exclusive repr_float include_max max_arg
                   = Inr (spec_score_bound repr_float include_max max_arg)"
    by (simp_all add: mark_exclusive_ok)
  from ok show
    "zrevrangebyscore repr_float key max_arg min_arg include_min include_max withscores offset
          count
        = Execute ''ZREVRANGEBYSCORE''
            (key # spec_score_bound repr_float include_min min_arg
                 # spec_score_bound repr_float include_max max_arg
                 # (if withscores then [PBytes ''WITHSCORES''] else [])
                 @ (if offset \<noteq> PNone then [PBytes ''LIMIT'', offset, count] else []))
            (if withscores then Some PairsIntOrFloat else None)"
    by (auto simp: zrevrangebyscore_def lo hi dest: isinstance_int_not_None)
qed

theorem zrevrangebyscore_wire_order_witness:
  "zrevrangebyscore (\<lambda>f. []) (PBytes ''k'') (PInt 9) (PInt 1) False True True (PInt 0) (PInt 5)
     = Execute ''ZREVRANGEBYSCORE''
         [PBytes ''k'', PBytes ''(1'', PInt 9, PBytes ''WITHSCORES'',
          PBytes ''LIMIT'', PInt 0, PInt 5]
         (Some PairsIntOrFloat)
   \<and> zrangebyscore (\<lambda>f. []) (PBytes ''k'') (PInt 1) (PInt 9) False True True (PInt 0) (PInt 5)
     = Execute ''ZRANGEBYSCORE''
         [PBytes ''k'', PBytes ''(1'', PInt 9, PBytes ''WITHSCORES'',
          PBytes ''LIMIT'', PInt 0, PInt 5]
         (Some PairsIntOrFloat)"
proof -
  have fits: "fits_float (PInt 1)"
    by (simp add: fits_float_def int_too_large_def)
  have one: "str_int 1 = ''1''"
    by code_simp
  note w = zrevrangebyscore_wire_order [where repr_float = "\<lambda>f. []" and key = "PBytes ''k''"
      and max_arg = "PInt 9" and min_arg = "PInt 1" and include_min = False
      and include_max = True and withscores = True and offset = "PInt 0" and count = "PInt 5"
      and name = "''ZREVRANGEBYSCORE''"
      and args = "[PBytes ''k'', PBytes ''(1'', PInt 9, PBytes ''WITHSCORES'',
                   PBytes ''LIMIT'', PInt 0, PInt 5]"
      and conv = "Some PairsIntOrFloat"]
  from w [THEN conjunct2] fits have sent:
    "zrevrangebyscore (\<lambda>f. []) (PBytes ''k'') (PInt 9) (PInt 1) False True True (PInt 0) (PInt 5)
     = Execute ''ZREVRANGEBYSCORE''
         [PBytes ''k'', PBytes ''(1'', PInt 9, PBytes ''WITHSCORES'',
          PBytes ''LIMIT'', PInt 0, PInt 5]
         (Some PairsIntOrFloat)"
    by (simp add: spec_score_bound_def is_infinite_def one)
  from w [THEN conjunct1] sent have
    "zrangebyscore (\<lambda>f. []) (PBytes ''k'') (PInt 1) (PInt 9) False True True (PInt 0) (PInt 5)
     = Execute ''ZRANGEBYSCORE''
         [PBytes ''k'', PBytes ''(1'', PInt 9, PBytes ''WITHSCORES'',
          PBytes ''LIMIT'', PInt 0, PInt 5]
         (Some PairsIntOrFloat)"
    by blast
  with sent show ?thesis
    by (rule conjI)
qed

text \<open>
  Claim C1. In \<^verbatim>\<open>zcount\<close>, \<^verbatim>\<open>zrangebyscore\<close>, \<^verbatim>\<open>zremrangebyscore\<close> and
  \<^verbatim>\<open>zrevrangebyscore\<close> a finite exclusive bound is sent as \<^verbatim>\<open>"("\<close> followed by the
  text of the number, a finite inclusive bound as the number itself, an infinite bound
  unchanged whatever its flag. The operations do so for every bound that
  \<^verbatim>\<open>math.isinf\<close> can convert (\<open>score_bounds_encoded\<close>, \<open>spec_score_bound_cases\<close>).
  They do not for an exclusive \<^verbatim>\<open>int\<close> bound of magnitude \<open>2 ^ 1024 - 2 ^ 970\<close> or
  more: \<^verbatim>\<open>zcount(b"k", min=2 ** 1024, include_min=False)\<close> passes the type and range
  checks and then raises \<^verbatim>\<open>OverflowError\<close> from \<^verbatim>\<open>math.isinf\<close>, where the same
  bound with \<^verbatim>\<open>include_min=True\<close> is sent as it is.
\<close>

theorem zcount_exclusive_huge_int:
  "zcount repr_float (PBytes ''k'') (PInt (2 ^ 1024)) (PFloat PosInf) False True
     = Raise OverflowError
   \<and> zcount repr_float (PBytes ''k'') (PInt (2 ^ 1024)) (PFloat PosInf) True True
     = Execute ''ZCOUNT'' [PBytes ''k'', PInt (2 ^ 1024), PFloat PosInf] None"
proof -
  define n :: int where "n = 2 ^ 1024"
  have big: "int_too_large n"
    unfolding n_def by (rule int_too_large_2_1024)
  have "zcount repr_float (PBytes ''k'') (PInt n) (PFloat PosInf) False True
          = Raise OverflowError
        \<and> zcount repr_float (PBytes ''k'') (PInt n) (PFloat PosInf) True True
          = Execute ''ZCOUNT'' [PBytes ''k'', PInt n, PFloat PosInf] None"
    by (simp add: zcount_def py_gt_def mark_exclusive_too_large [OF big]
          mark_exclusive_inclusive)
  then show ?thesis
    unfolding n_def .
qed

text \<open>
  Claim C8. Of the score-range operations only \<^verbatim>\<open>zcount\<close> compares the bounds:
  \<^verbatim>\<open>zrangebyscore\<close>, \<^verbatim>\<open>zremrangebyscore\<close> and \<^verbatim>\<open>zrevrangebyscore\<close> called with a finite
  minimum above the maximum raise nothing and send the command with the encoded bounds.
  They do so for every bound that \<^verbatim>\<open>math.isinf\<close> can convert
  (\<open>score_ranges_unchecked\<close>). They do not for an exclusive \<^verbatim>\<open>int\<close> bound of
  magnitude \<open>2 ^ 1024 - 2 ^ 970\<close> or more:
  \<^verbatim>\<open>zremrangebyscore(b"k", min=2 ** 1024, max=0, include_min=False)\<close> raises
  \<^verbatim>\<open>OverflowError\<close> from \<^verbatim>\<open>math.isinf\<close>, and so do the other two operations.
\<close>

theorem score_range_exclusive_huge_int:
  "py_gt (PInt (2 ^ 1024)) (PInt 0)
   \<and> zremrangebyscore repr_float (PBytes ''k'') (PInt (2 ^ 1024)) (PInt 0) False True
       = Raise OverflowError
   \<and> zrangebyscore repr_float (PBytes ''k'') (PInt (2 ^ 1024)) (PInt 0) False True False
         PNone PNone
       = Raise OverflowError
   \<and> zrevrangebyscore repr_float (PBytes ''k'') (PInt 0) (PInt (2 ^ 1024)) False True False
         PNone PNone
       = Raise OverflowError"
proof -
  define n :: int where "n = 2 ^ 1024"
  have big: "int_too_large n"
    unfolding n_def by (rule int_too_large_2_1024)
  have pos: "0 < n"
    unfolding n_def by simp
  have "py_gt (PInt n) (PInt 0)
        \<and> zremrangebyscore repr_float (PBytes ''k'') (PInt n) (PInt 0) False True
            = Raise OverflowError
        \<and> zrangebyscore repr_float (PBytes ''k'') (PInt n) (PInt 0) False True False
              PNone PNone
            = Raise OverflowError
        \<and> zrevrangebyscore repr_float (PBytes ''k'') (PInt 0) (PInt n) False True False
              PNone PNone
            = Raise OverflowError"
    using pos
    by (simp add: zremrangebyscore_def zrangebyscore_def zrevrangebyscore_def py_gt_def
          mark_exclusive_too_large [OF big])
  then show ?thesis
    unfolding n_def .
qed

text \<open>
  Claim C3. \<^verbatim>\<open>int_or_float\<close>, the converter that \<^verbatim>\<open>zscore\<close> and \<^verbatim>\<open>zincrby\<close> attach to
  their reply, applied to a text (\<^verbatim>\<open>bytes\<close> or \<^verbatim>\<open>str\<close>) returns the \<^verbatim>\<open>int\<close> that the
  text denotes when it is an integer literal, and otherwise what \<^verbatim>\<open>float\<close> makes of the
  text (a \<^verbatim>\<open>float\<close>, or its \<^verbatim>\<open>ValueError\<close>); \<^verbatim>\<open>"10"\<close> gives the integer 10,
  \<^verbatim>\<open>"10.5"\<close> the float 10.5, and the decimal text of any integer that integer.
\<close>

theorem int_or_float_decodes:
  "(py_int s = Inr n \<longrightarrow>
      int_or_float (PBytes s) = Inr (PInt n) \<and> int_or_float (PStr s) = Inr (PInt n))
   \<and> ((\<forall>n. py_int s \<noteq> Inr n) \<longrightarrow>
      int_or_float (PBytes s) = map_sum id PFloat (py_float s)
      \<and> int_or_float (PStr s) = map_sum id PFloat (py_float s))
   \<and> int_or_float (PBytes ''10'') = Inr (PInt 10)
   \<and> int_or_float (PBytes ''10.5'') = Inr (PFloat (Finite (21 / 2)))
   \<and> int_or_float (PBytes (str_int k)) = Inr (PInt k)
   \<and> converter_fun IntOrFloat v = int_or_float v
   \<and> (key \<noteq> PNone \<longrightarrow>
        zscore key member = Execute ''ZSCORE'' [key, member] (Some IntOrFloat))
   \<and> (key \<noteq> PNone \<and> isinstance_int_float increment \<longrightarrow>
        zincrby key increment member
          = Execute ''ZINCRBY'' [key, increment, member] (Some IntOrFloat))"
proof (intro conjI impI)
  assume "py_int s = Inr n"
  then show "int_or_float (PBytes s) = Inr (PInt n)" "int_or_float (PStr s) = Inr (PInt n)"
    by (simp_all add: int_or_float_def)
next
  assume no_int: "\<forall>n. py_int s \<noteq> Inr n"
  then have "py_int s = Inl ValueError"
    by (cases "py_int s") (auto dest: py_int_error)
  then show "int_or_float (PBytes s) = map_sum id PFloat (py_float s)"
    "int_or_float (PStr s) = map_sum id PFloat (py_float s)"
    by (cases "py_float s"; simp add: int_or_float_def)+
next
  show "int_or_float (PBytes ''10'') = Inr (PInt 10)"
    by code_simp
  show "int_or_float (PBytes ''10.5'') = Inr (PFloat (Finite (21 / 2)))"
    by code_simp
  show "int_or_float (PBytes (str_int k)) = Inr (PInt k)"
    by (rule int_or_float_str_int)
  show "converter_fun IntOrFloat v = int_or_float v"
    by simp
next
  assume "key \<noteq> PNone"
  then show "zscore key member = Execute ''ZSCORE'' [key, member] (Some IntOrFloat)"
    by (simp add: zscore_def)
next
  assume "key \<noteq> PNone \<and> isinstance_int_float increment"
  then show "zincrby key increment member
               = Execute ''ZINCRBY'' [key, increment, member] (Some IntOrFloat)"
    by (simp add: zincrby_def)
qed

theorem int_or_float_decodes_witness:
  "py_int ''-7'' = Inr (- 7) \<and> int_or_float (PBytes ''-7'') = Inr (PInt (- 7))
   \<and> (\<forall>n. py_int ''1e3'' \<noteq> Inr n)
   \<and> int_or_float (PStr ''1e3'') = Inr (PFloat (Finite 1000))
   \<and> int_or_float (PBytes ''abc'') = Inl ValueError
   \<and> zscore (PBytes ''k'') (PBytes ''a'')
       = Execute ''ZSCORE'' [PBytes ''k'', PBytes ''a''] (Some IntOrFloat)
   \<and> zincrby (PBytes ''k'') (PInt 2) (PBytes ''a'')
       = Execute ''ZINCRBY'' [PBytes ''k'', PInt 2, PBytes ''a''] (Some IntOrFloat)"
proof -
  have i: "py_int ''-7'' = Inr (- 7)"
    by code_simp
  have e: "py_int ''1e3'' = Inl ValueError" "py_int ''abc'' = Inl ValueError"
    by code_simp+
  have f: "py_float ''1e3'' = Inr (Finite 1000)" "py_float ''abc'' = Inl ValueError"
    by code_simp+
  from e have no: "\<forall>n. py_int ''1e3'' \<noteq> Inr n" "\<forall>n. py_int ''abc'' \<noteq> Inr n"
    by simp_all
  note a = int_or_float_decodes [where s = "''-7''" and n = "- 7"]
  note b = int_or_float_decodes [where s = "''1e3''"]
  note c = int_or_float_decodes [where s = "''abc''" and key = "PBytes ''k''"
      and member = "PBytes ''a''" and increment = "PInt 2"]
  from a i have "int_or_float (PBytes ''-7'') = Inr (PInt (- 7))"
    by blast
  moreover from b no(1) f(1) have "int_or_float (PStr ''1e3'') = Inr (PFloat (Finite 1000))"
    by simp
  moreover from c no(2) f(2) have "int_or_float (PBytes ''abc'') = Inl ValueError"
    by simp
  moreover from c have "zscore (PBytes ''k'') (PBytes ''a'')
       = Execute ''ZSCORE'' [PBytes ''k'', PBytes ''a''] (Some IntOrFloat)"
    "zincrby (PBytes ''k'') (PInt 2) (PBytes ''a'')
       = Execute ''ZINCRBY'' [PBytes ''k'', PInt 2, PBytes ''a''] (Some IntOrFloat)"
    by simp_all
  ultimately show ?thesis
    using i no(1) by simp
qed

text \<open>
  Claim C4. For every reply list of alternating members and scores
  \<open>[m1, s1, m2, s2, \<dots>]\<close> whose scores are numeric texts, \<^verbatim>\<open>pairs_int_or_float\<close>
  returns \<open>[m1, d1, m2, d2, \<dots>]\<close> in the same order, where \<open>di\<close> is what
  \<^verbatim>\<open>int_or_float\<close> makes of \<open>si\<close>; \<^verbatim>\<open>[b"a", b"1", b"b", b"2"]\<close> gives
  \<^verbatim>\<open>[b"a", 1, b"b", 2]\<close>. It is the converter that \<^verbatim>\<open>zrange\<close>, \<^verbatim>\<open>zrevrange\<close>,
  \<^verbatim>\<open>zrangebyscore\<close> and \<^verbatim>\<open>zrevrangebyscore\<close> attach to a command sent with
  \<^verbatim>\<open>withscores\<close> true.
\<close>

theorem pairs_int_or_float_decodes:
  "((\<forall>(m, s) \<in> set ps. \<not> isl (int_or_float s)) \<longrightarrow>
      pairs_int_or_float (PList (concat (map (\<lambda>(m, s). [m, s]) ps)))
        = Inr (concat (map (\<lambda>(m, s). [m, projr (int_or_float s)]) ps)))
   \<and> pairs_int_or_float (PList [PBytes ''a'', PBytes ''1'', PBytes ''b'', PBytes ''2''])
       = Inr [PBytes ''a'', PInt 1, PBytes ''b'', PInt 2]
   \<and> converter_fun PairsIntOrFloat v = map_sum id PList (pairs_int_or_float v)
   \<and> (zrange key start stop True = Execute name args conv
        \<longrightarrow> conv = Some PairsIntOrFloat)
   \<and> (zrevrange key start stop True = Execute name args conv
        \<longrightarrow> conv = Some PairsIntOrFloat)
   \<and> (zrangebyscore repr_float key min_arg max_arg include_min include_max True offset count
          = Execute name args conv
        \<longrightarrow> conv = Some PairsIntOrFloat)
   \<and> (zrevrangebyscore repr_float key max_arg min_arg include_min include_max True offset count
          = Execute name args conv
        \<longrightarrow> conv = Some PairsIntOrFloat)
   \<and> (key \<noteq> PNone \<and> isinstance_int start \<and> isinstance_int stop \<longrightarrow>
        zrange key start stop True
          = Execute ''ZRANGE'' [key, start, stop, PBytes ''WITHSCORES''] (Some PairsIntOrFloat))"
proof (intro conjI impI)
  assume "\<forall>(m, s) \<in> set ps. \<not> isl (int_or_float s)"
  then show "pairs_int_or_float (PList (concat (map (\<lambda>(m, s). [m, s]) ps)))
               = Inr (concat (map (\<lambda>(m, s). [m, projr (int_or_float s)]) ps))"
    by (simp add: pairs_int_or_float_def zip_it_it_alternating sum_pairs_decodes)
next
  show "pairs_int_or_float (PList [PBytes ''a'', PBytes ''1'', PBytes ''b'', PBytes ''2''])
          = Inr [PBytes ''a'', PInt 1, PBytes ''b'', PInt 2]"
    by code_simp
  show "converter_fun PairsIntOrFloat v = map_sum id PList (pairs_int_or_float v)"
    by (cases "pairs_int_or_float v") simp_all
next
  assume "zrange key start stop True = Execute name args conv"
  then show "conv = Some PairsIntOrFloat"
    by (auto simp: zrange_def split: if_splits)
next
  assume "zrevrange key start stop True = Execute name args conv"
  then show "conv = Some PairsIntOrFloat"
    by (auto simp: zrevrange_def split: if_splits)
next
  assume "zrangebyscore repr_float key min_arg max_arg include_min include_max True offset count
            = Execute name args conv"
  then show "conv = Some PairsIntOrFloat"
    by (auto simp: zrangebyscore_def split: if_splits sum.splits)
next
  assume "zrevrangebyscore repr_float key max_arg min_arg include_min include_max True offset
            count = Execute name args conv"
  then show "conv = Some PairsIntOrFloat"
    by (auto simp: zrevrangebyscore_def split: if_splits sum.splits)
next
  assume "key \<noteq> PNone \<and> isinstance_int start \<and> isinstance_int stop"
  then show "zrange key start stop True
          = Execute ''ZRANGE'' [key, start, stop, PBytes ''WITHSCORES''] (Some PairsIntOrFloat)"
    by (simp add: zrange_def)
qed

theorem pairs_int_or_float_decodes_witness:
  "pairs_int_or_float (PList [PBytes ''x'', PBytes ''3'', PBytes ''y'', PBytes ''0.5''])
       = Inr [PBytes ''x'', PInt 3, PBytes ''y'', PFloat (Finite (1 / 2))]
   \<and> zrange (PBytes ''k'') (PInt 0) (PInt (- 1)) True
       = Execute ''ZRANGE'' [PBytes ''k'', PInt 0, PInt (- 1), PBytes ''WITHSCORES'']
           (Some PairsIntOrFloat)"
proof -
  let ?ps = "[(PBytes ''x'', PBytes ''3''), (PBytes ''y'', PBytes ''0.5'')]"
  have d: "int_or_float (PBytes ''3'') = Inr (PInt 3)"
    "int_or_float (PBytes ''0.5'') = Inr (PFloat (Finite (1 / 2)))"
    by code_simp+
  then have ok: "\<forall>(m, s) \<in> set ?ps. \<not> isl (int_or_float s)"
    by simp
  note w = pairs_int_or_float_decodes [where ps = ?ps and key = "PBytes ''k''"
      and start = "PInt 0" and stop = "PInt (- 1)" and v = PNone and name = "[]" and args = "[]"
      and conv = None and repr_float = "\<lambda>f. []" and min_arg = PNone and max_arg = PNone
      and include_min = True and include_max = True and offset = PNone and count = PNone]
  from w [THEN conjunct1] ok have
    "pairs_int_or_float (PList [PBytes ''x'', PBytes ''3'', PBytes ''y'', PBytes ''0.5''])
       = Inr [PBytes ''x'', PInt 3, PBytes ''y'', PFloat (Finite (1 / 2))]"
    by (simp add: d)
  moreover have "PBytes ''k'' \<noteq> PNone \<and> isinstance_int (PInt 0) \<and> isinstance_int (PInt (- 1))"
    by simp
  with w [THEN conjunct2, THEN conjunct2, THEN conjunct2, THEN conjunct2, THEN conjunct2,
          THEN conjunct2, THEN conjunct2]
  have "zrange (PBytes ''k'') (PInt 0) (PInt (- 1)) True
       = Execute ''ZRANGE'' [PBytes ''k'', PInt 0, PInt (- 1), PBytes ''WITHSCORES'']
           (Some PairsIntOrFloat)"
    by (rule mp)
  ultimately show ?thesis
    by (rule conjI)
qed

end
